theory Spec2Isabelle
  imports Main "HOL-Library.Word"
begin

section \<open>Strings of the source language\<close>

text \<open>
  A JavaScript string is a sequence of 16-bit code units. String literals of the source
  are written with \<open>lit\<close>, which maps each character of an ASCII literal to its code unit.
\<close>

type_synonym js_string = "16 word list"

definition lit :: "string \<Rightarrow> js_string" where
  "lit cs = map (\<lambda>c. of_nat (of_char c)) cs"

text \<open>
  \<open>String.prototype.trim\<close> removes the code units of the grammar productions WhiteSpace
  and LineTerminator from both ends: TAB, LF, VT, FF, CR, SP, NBSP, the space separators
  U+1680, U+2000 to U+200A, U+202F, U+205F and U+3000, the separators U+2028 and U+2029,
  and U+FEFF.
\<close>

definition isWhiteSpace :: "16 word \<Rightarrow> bool" where
  "isWhiteSpace c \<longleftrightarrow>
     c = 0x0009 \<or> c = 0x000A \<or> c = 0x000B \<or> c = 0x000C \<or> c = 0x000D \<or> c = 0x0020 \<or>
     c = 0x00A0 \<or> c = 0x1680 \<or> (0x2000 \<le> c \<and> c \<le> 0x200A) \<or> c = 0x2028 \<or>
     c = 0x2029 \<or> c = 0x202F \<or> c = 0x205F \<or> c = 0x3000 \<or> c = 0xFEFF"

definition trim :: "js_string \<Rightarrow> js_string" where
  "trim s = rev (dropWhile isWhiteSpace (rev (dropWhile isWhiteSpace s)))"

text \<open>\<open>s.startsWith(p)\<close>\<close>

definition startsWith :: "js_string \<Rightarrow> js_string \<Rightarrow> bool" where
  "startsWith s p \<longleftrightarrow> take (length p) s = p"

text \<open>
  \<open>s.split(sep)\<close> for a separator of one code unit: the pieces between the separators,
  one more than there are separators.
\<close>

fun js_split :: "16 word \<Rightarrow> js_string \<Rightarrow> js_string list" where
  "js_split sep [] = [[]]"
| "js_split sep (c # cs) =
     (if c = sep then [] # js_split sep cs
      else (case js_split sep cs of
              [] \<Rightarrow> [[c]]
            | p # ps \<Rightarrow> (c # p) # ps))"

text \<open>Indexing an array: \<open>undefined\<close> (here \<open>None\<close>) out of range.\<close>

definition at_index :: "'a list \<Rightarrow> nat \<Rightarrow> 'a option" where
  "at_index xs i = (if i < length xs then Some (xs ! i) else None)"

definition comma :: "16 word" where
  "comma = 0x002C"

section \<open>Data model\<close>

text \<open>The browser's \<open>File\<close>: of its fields the program reads \<open>type\<close> only.\<close>

record File =
  name :: js_string
  type :: js_string

text \<open>
  \<open>interface ImageFile { file: File; base64: string }\<close>. The payload is what
  \<open>split(',')[1]\<close> gave, which is \<open>undefined\<close> (\<open>None\<close>) for a string without a comma.
  The field \<open>file\<close> is named \<open>file_obj\<close> here.
\<close>

record ImageFile =
  file_obj :: File
  base64 :: "js_string option"

text \<open>The five state variables of \<open>App\<close>.\<close>

record state =
  originalImage :: "ImageFile option"
  editedImage :: "js_string option"
  prompt :: js_string
  isLoading :: bool
  error :: "js_string option"

section \<open>The environment's answers\<close>

text \<open>
  What the \<open>FileReader\<close> does with the file: \<open>onload\<close> with \<open>reader.result\<close>, a data URL,
  or \<open>onerror\<close>.
\<close>

datatype read_result = Loaded js_string | ReadFailed

text \<open>
  What \<open>editImageWithPrompt\<close> of \<open>./services/geminiService\<close> does: its promise resolves
  with a string or rejects with a value that the handler reads as a string (\<open>err as string\<close>).
\<close>

datatype edit_result = Resolved js_string | Rejected js_string

section \<open>What a handler does\<close>

text \<open>
  A handler run is the sequence of the calls it makes, in order: the state setters and the
  two calls that leave the component.
\<close>

datatype action =
    SetOriginalImage "ImageFile option"
  | SetEditedImage "js_string option"
  | SetPrompt js_string
  | SetIsLoading bool
  | SetError "js_string option"
  | ReadAsDataURL File
  | EditImageWithPrompt "js_string option" js_string js_string

fun apply_action :: "action \<Rightarrow> state \<Rightarrow> state" where
  "apply_action (SetOriginalImage v) s = s\<lparr>originalImage := v\<rparr>"
| "apply_action (SetEditedImage v) s = s\<lparr>editedImage := v\<rparr>"
| "apply_action (SetPrompt v) s = s\<lparr>prompt := v\<rparr>"
| "apply_action (SetIsLoading v) s = s\<lparr>isLoading := v\<rparr>"
| "apply_action (SetError v) s = s\<lparr>error := v\<rparr>"
| "apply_action (ReadAsDataURL f) s = s"
| "apply_action (EditImageWithPrompt b t p) s = s"

text \<open>The state after a run, and every state on the way (the starting state first).\<close>

fun run :: "action list \<Rightarrow> state \<Rightarrow> state" where
  "run [] s = s"
| "run (a # as) s = run as (apply_action a s)"

fun states_of :: "action list \<Rightarrow> state \<Rightarrow> state list" where
  "states_of [] s = [s]"
| "states_of (a # as) s = s # states_of as (apply_action a s)"

fun is_edit_call :: "action \<Rightarrow> bool" where
  "is_edit_call (EditImageWithPrompt b t p) = True"
| "is_edit_call a = False"

fun is_read :: "action \<Rightarrow> bool" where
  "is_read (ReadAsDataURL f) = True"
| "is_read a = False"

fun is_set_loading :: "action \<Rightarrow> bool" where
  "is_set_loading (SetIsLoading v) = True"
| "is_set_loading a = False"

section \<open>The upload handler\<close>

text \<open>
  \<open>fileToBase64\<close>: the promise resolves with \<open>reader.result.split(',')[1]\<close> on load and
  rejects on error (\<open>Inl\<close>).
\<close>

definition fileToBase64 :: "read_result \<Rightarrow> unit + js_string option" where
  "fileToBase64 r =
     (case r of
        Loaded d \<Rightarrow> Inr (at_index (js_split comma d) 1)
      | ReadFailed \<Rightarrow> Inl ())"

text \<open>
  \<open>handleImageUpload\<close>: the argument is \<open>e.target.files?.[0]\<close>, \<open>None\<close> when the event
  carries no file. The read result is consulted only where the handler reads the file.
\<close>

definition handleImageUpload :: "File option \<Rightarrow> read_result \<Rightarrow> action list" where
  "handleImageUpload fo r =
     (case fo of
        None \<Rightarrow> [SetError (Some (lit ''Please select a valid image file.''))]
      | Some f \<Rightarrow>
          if startsWith (type f) (lit ''image/'') then
            ReadAsDataURL f #
            (case fileToBase64 r of
               Inr b \<Rightarrow>
                 [SetOriginalImage (Some \<lparr>file_obj = f, base64 = b\<rparr>),
                  SetEditedImage None,
                  SetError None]
             | Inl u \<Rightarrow> [SetError (Some (lit ''Failed to read the image file.''))])
          else [SetError (Some (lit ''Please select a valid image file.''))])"

section \<open>The Generate handler\<close>

text \<open>
  \<open>handleGenerateClick\<close> up to its \<open>await\<close>: the two guards, then the three setters and
  the call of the collaborator.
\<close>

definition handleGenerateClick_sync :: "state \<Rightarrow> action list" where
  "handleGenerateClick_sync s =
     (case originalImage s of
        None \<Rightarrow> [SetError (Some (lit ''Please upload an image first.''))]
      | Some img \<Rightarrow>
          if trim (prompt s) = [] then
            [SetError (Some (lit ''Please enter an editing prompt.''))]
          else
            [SetIsLoading True,
             SetError None,
             SetEditedImage None,
             EditImageWithPrompt (base64 img) (type (file_obj img)) (prompt s)])"

text \<open>
  The image a run has captured when it reaches the \<open>await\<close>: the continuation reads
  \<open>originalImage\<close> from the closure, not from the state of the moment.
\<close>

definition awaiting :: "state \<Rightarrow> ImageFile option" where
  "awaiting s =
     (case originalImage s of
        None \<Rightarrow> None
      | Some img \<Rightarrow> if trim (prompt s) = [] then None else Some img)"

text \<open>After the \<open>await\<close>: \<open>try\<close> or \<open>catch\<close>, then \<open>finally\<close>.\<close>

definition handleGenerateClick_settle :: "ImageFile \<Rightarrow> edit_result \<Rightarrow> action list" where
  "handleGenerateClick_settle img r =
     (case r of
        Resolved resultBase64 \<Rightarrow>
          [SetEditedImage
             (Some (lit ''data:'' @ type (file_obj img) @ lit '';base64,'' @ resultBase64))]
      | Rejected err \<Rightarrow> [SetError (Some err)])
     @ [SetIsLoading False]"

text \<open>The whole handler, with the collaborator's answer.\<close>

definition handleGenerateClick :: "edit_result \<Rightarrow> state \<Rightarrow> action list" where
  "handleGenerateClick r s =
     handleGenerateClick_sync s @
     (case awaiting s of
        None \<Rightarrow> []
      | Some img \<Rightarrow> handleGenerateClick_settle img r)"

section \<open>The component as an event system\<close>

text \<open>The state of the first render, with the initial value of \<open>prompt\<close>.\<close>

definition default_prompt :: js_string where
  "default_prompt =
     lit (''From the uploaded image, please accurately isolate all human subjects '' @
          ''and place them onto a uniform, neutral background. The output should '' @
          ''be a new image featuring only the clear, high-resolution cutouts of '' @
          ''the people.'')"

definition initial_state :: state where
  "initial_state =
     \<lparr>originalImage = None,
      editedImage = None,
      prompt = default_prompt,
      isLoading = False,
      error = None\<rparr>"

text \<open>
  The controller's state together with the requests in flight, each with the image its
  run captured.
\<close>

record config =
  ui :: state
  inflight :: "ImageFile list"

text \<open>
  The events: a change of the file input (never disabled), a change of the textarea
  (disabled while loading), a click on the button (disabled while loading or without an
  image), and the settling of the \<open>i\<close>-th request in flight. An event on a disabled
  control, or for a request that is not there, does not happen: the configuration stays.
\<close>

datatype event =
    Upload "File option" read_result
  | ChangePrompt js_string
  | ClickGenerate
  | Settle nat edit_result

fun step :: "event \<Rightarrow> config \<Rightarrow> config" where
  "step (Upload fo r) c = c\<lparr>ui := run (handleImageUpload fo r) (ui c)\<rparr>"
| "step (ChangePrompt v) c =
     (if isLoading (ui c) then c else c\<lparr>ui := run [SetPrompt v] (ui c)\<rparr>)"
| "step ClickGenerate c =
     (if isLoading (ui c) \<or> originalImage (ui c) = None then c
      else c\<lparr>ui := run (handleGenerateClick_sync (ui c)) (ui c),
             inflight := inflight c @ (case awaiting (ui c) of None \<Rightarrow> [] | Some img \<Rightarrow> [img])\<rparr>)"
| "step (Settle i r) c =
     (if i < length (inflight c) then
        c\<lparr>ui := run (handleGenerateClick_settle (inflight c ! i) r) (ui c),
          inflight := take i (inflight c) @ drop (Suc i) (inflight c)\<rparr>
      else c)"

fun exec :: "event list \<Rightarrow> config \<Rightarrow> config" where
  "exec [] c = c"
| "exec (e # es) c = exec es (step e c)"

definition initial_config :: config where
  "initial_config = \<lparr>ui = initial_state, inflight = []\<rparr>"


text \<open>
  What became of the request started last, read off the events: a click on the enabled
  button that passes both guards starts a request, and the settling of a request in flight
  ends it one way or the other. The other events start and end none.
\<close>

datatype request_status = NoRequest | Pending | Succeeded | Failed

fun note_request :: "event \<Rightarrow> config \<Rightarrow> request_status \<Rightarrow> request_status" where
  "note_request (Upload fo r) c q = q"
| "note_request (ChangePrompt v) c q = q"
| "note_request ClickGenerate c q =
     (if isLoading (ui c) \<or> originalImage (ui c) = None then q
      else (case awaiting (ui c) of None \<Rightarrow> q | Some img \<Rightarrow> Pending))"
| "note_request (Settle i r) c q =
     (if i < length (inflight c) then
        (case r of Resolved resultBase64 \<Rightarrow> Succeeded | Rejected err \<Rightarrow> Failed)
      else q)"

fun last_request :: "event list \<Rightarrow> config \<Rightarrow> request_status \<Rightarrow> request_status" where
  "last_request [] c q = q"
| "last_request (e # es) c q = last_request es (step e c) (note_request e c q)"

section \<open>Example inputs\<close>

definition photo :: File where
  "photo = \<lparr>name = lit ''photo.png'', type = lit ''image/png''\<rparr>"

definition memo :: File where
  "memo = \<lparr>name = lit ''notes.txt'', type = lit ''text/plain''\<rparr>"

definition photo_url :: js_string where
  "photo_url = lit ''data:image/png;base64,AAAA''"



definition photo_image :: ImageFile where
  "photo_image = \<lparr>file_obj = photo, base64 = Some (lit ''AAAA'')\<rparr>"

definition with_photo :: "js_string \<Rightarrow> state" where
  "with_photo p = initial_state\<lparr>originalImage := Some photo_image, prompt := p\<rparr>"

definition shown_result :: state where
  "shown_result =
     (with_photo (lit ''make it blue''))
       \<lparr>editedImage := Some (lit ''data:image/png;base64,abcd1234'')\<rparr>"

definition photo_loaded :: config where
  "photo_loaded = \<lparr>ui = initial_state\<lparr>originalImage := Some photo_image\<rparr>, inflight = []\<rparr>"

definition photo_requested :: config where
  "photo_requested =
     \<lparr>ui = initial_state\<lparr>originalImage := Some photo_image, isLoading := True\<rparr>,
      inflight = [photo_image]\<rparr>"

section \<open>An invariant of the event system\<close>

text \<open>The values \<open>error\<close> can have after an upload has set it.\<close>

definition upload_errors :: "js_string option set" where
  "upload_errors =
     {None, Some (lit ''Please select a valid image file.''),
      Some (lit ''Failed to read the image file.'')}"

text \<open>
  At most one request is in flight, \<open>isLoading\<close> is set while it is, and while
  \<open>isLoading\<close> is set there is no result and no error but an upload's.
\<close>

definition one_request :: "config \<Rightarrow> bool" where
  "one_request c \<longleftrightarrow>
     length (inflight c) \<le> 1 \<and>
     (inflight c \<noteq> [] \<longrightarrow> isLoading (ui c)) \<and>
     (isLoading (ui c) \<longrightarrow> editedImage (ui c) = None \<and> error (ui c) \<in> upload_errors)"

text \<open>A result is shown only when the request started last has succeeded.\<close>

definition result_of_success :: "config \<Rightarrow> request_status \<Rightarrow> bool" where
  "result_of_success c q \<longleftrightarrow>
     one_request c \<and> (editedImage (ui c) \<noteq> None \<longrightarrow> q = Succeeded)"

section \<open>Strings\<close>

lemma js_split_no_sep: "sep \<notin> set p \<Longrightarrow> js_split sep p = [p]"
  by (induction p) auto

lemma js_split_first: "sep \<notin> set h \<Longrightarrow> js_split sep (h @ sep # t) = h # js_split sep t"
  by (induction h) auto

lemma fileToBase64_data_url:
  "comma \<notin> set h \<Longrightarrow> comma \<notin> set p \<Longrightarrow>
     fileToBase64 (Loaded (h @ comma # p)) = Inr (Some p)"
  by (simp add: fileToBase64_def js_split_first js_split_no_sep at_index_def)

lemma trim_nonblank_head: "\<not> isWhiteSpace c \<Longrightarrow> trim (c # cs) \<noteq> []"
  by (auto simp add: trim_def dropWhile_eq_Nil_conv)

lemma trim_default_prompt: "trim default_prompt \<noteq> []"
  by (simp add: default_prompt_def lit_def trim_nonblank_head isWhiteSpace_def)

lemma trim_blue: "trim (lit ''make it blue'') \<noteq> []"
  by (simp add: lit_def trim_nonblank_head isWhiteSpace_def)

lemma trim_blank: "trim (lit ''  '') = []"
  by (simp add: trim_def isWhiteSpace_def lit_def)

lemma photo_is_image: "startsWith (type photo) (lit ''image/'')"
  by (simp add: photo_def startsWith_def lit_def)

lemma memo_is_no_image: "\<not> startsWith (type memo) (lit ''image/'')"
  by (simp add: memo_def startsWith_def lit_def)

section \<open>The Generate handler: the request\<close>

text \<open>
  The handler read in one piece, as the source has it: the two guards with their early
  returns, the three setters, the call, \<open>try\<close> or \<open>catch\<close>, and \<open>finally\<close>.
\<close>

lemma handleGenerateClick_unfolded:
  "handleGenerateClick r s =
     (case originalImage s of
        None \<Rightarrow> [SetError (Some (lit ''Please upload an image first.''))]
      | Some img \<Rightarrow>
          if trim (prompt s) = [] then
            [SetError (Some (lit ''Please enter an editing prompt.''))]
          else
            [SetIsLoading True,
             SetError None,
             SetEditedImage None,
             EditImageWithPrompt (base64 img) (type (file_obj img)) (prompt s)] @
            (case r of
               Resolved resultBase64 \<Rightarrow>
                 [SetEditedImage
                    (Some (lit ''data:'' @ type (file_obj img) @ lit '';base64,'' @ resultBase64))]
             | Rejected err \<Rightarrow> [SetError (Some err)]) @
            [SetIsLoading False])"
  by (simp add: handleGenerateClick_def handleGenerateClick_sync_def awaiting_def
      handleGenerateClick_settle_def split: option.splits)

text \<open>
  C2. When Generate is invoked with an image present and a prompt whose trim is not empty,
  and the collaborator rejects with \<open>M\<close>, the handler leaves \<open>error\<close> at \<open>M\<close>,
  \<open>editedImage\<close> unset and \<open>isLoading\<close> false; nothing else changes. The continuation
  after the \<open>await\<close> sets \<open>error\<close> to \<open>M\<close> and clears \<open>isLoading\<close> from whatever state
  it finds.
\<close>

theorem generate_failure:
  assumes "originalImage s = Some img" and "trim (prompt s) \<noteq> []"
  shows "run (handleGenerateClick (Rejected M) s) s =
           s\<lparr>editedImage := None, isLoading := False, error := Some M\<rparr>
         \<and> run (handleGenerateClick_settle img (Rejected M)) s2 =
           s2\<lparr>error := Some M, isLoading := False\<rparr>"
  using assms
  by (simp add: handleGenerateClick_def handleGenerateClick_sync_def awaiting_def
      handleGenerateClick_settle_def)

theorem generate_failure_witness:
  "originalImage shown_result = Some photo_image
   \<and> trim (prompt shown_result) \<noteq> []
   \<and> run (handleGenerateClick (Rejected (lit ''quota exceeded'')) shown_result) shown_result =
       (with_photo (lit ''make it blue''))\<lparr>error := Some (lit ''quota exceeded'')\<rparr>"
proof -
  have a: "originalImage shown_result = Some photo_image"
    by (simp add: shown_result_def with_photo_def)
  have b: "trim (prompt shown_result) \<noteq> []"
    using trim_blue by (simp add: shown_result_def with_photo_def)
  show ?thesis
    using a b generate_failure [OF a b, of "lit ''quota exceeded''" shown_result]
    by (simp add: shown_result_def with_photo_def initial_state_def)
qed

text \<open>
  C3, as the code has it. When Generate is invoked with an image present and a prompt whose
  trim is not empty, the handler calls the collaborator exactly once, with the stored
  payload, the type of the stored file and the prompt as it is stored, not trimmed.
\<close>

theorem generate_call_raw_prompt:
  assumes "originalImage s = Some img" and "trim (prompt s) \<noteq> []"
  shows "filter is_edit_call (handleGenerateClick r s) =
           [EditImageWithPrompt (base64 img) (type (file_obj img)) (prompt s)]"
  using assms
  by (cases r)
    (simp_all add: handleGenerateClick_def handleGenerateClick_sync_def awaiting_def
      handleGenerateClick_settle_def)

theorem generate_call_raw_prompt_witness:
  "originalImage (with_photo (lit '' hi'')) = Some photo_image
   \<and> trim (prompt (with_photo (lit '' hi''))) \<noteq> []
   \<and> filter is_edit_call
        (handleGenerateClick (Resolved (lit ''abcd1234'')) (with_photo (lit '' hi''))) =
       [EditImageWithPrompt (Some (lit ''AAAA'')) (lit ''image/png'') (lit '' hi'')]"
proof -
  have a: "originalImage (with_photo (lit '' hi'')) = Some photo_image"
    by (simp add: with_photo_def)
  have b: "trim (prompt (with_photo (lit '' hi''))) \<noteq> []"
    by (simp add: with_photo_def trim_def isWhiteSpace_def lit_def)
  show ?thesis
    using a b generate_call_raw_prompt [OF a b, of "Resolved (lit ''abcd1234'')"]
    by (simp add: with_photo_def photo_image_def photo_def)
qed

text \<open>
  C3, as the claim has it, fails for the prompt \<open>" hi"\<close>: its trim is \<open>"hi"\<close>, and the one
  call the handler makes carries \<open>" hi"\<close>.
\<close>

theorem generate_call_trimmed_counterexample:
  "trim (prompt (with_photo (lit '' hi''))) = lit ''hi''
   \<and> filter is_edit_call
        (handleGenerateClick (Resolved (lit ''abcd1234'')) (with_photo (lit '' hi''))) =
       [EditImageWithPrompt (Some (lit ''AAAA'')) (lit ''image/png'') (lit '' hi'')]
   \<and> filter is_edit_call
        (handleGenerateClick (Resolved (lit ''abcd1234'')) (with_photo (lit '' hi''))) \<noteq>
       [EditImageWithPrompt (Some (lit ''AAAA'')) (lit ''image/png'')
          (trim (prompt (with_photo (lit '' hi''))))]"
  by (simp add: with_photo_def photo_image_def photo_def handleGenerateClick_def
      handleGenerateClick_sync_def awaiting_def handleGenerateClick_settle_def
      trim_def isWhiteSpace_def lit_def)

section \<open>The Generate handler: the guards\<close>

text \<open>
  C4. When Generate is invoked with no image, the handler makes one call, the setter of
  \<open>error\<close> with "Please upload an image first.": it does not call the collaborator, does
  not set \<open>isLoading\<close>, and the state differs from the one before in \<open>error\<close> only.
\<close>

theorem generate_without_image:
  assumes "originalImage s = None"
  shows "handleGenerateClick r s = [SetError (Some (lit ''Please upload an image first.''))]
         \<and> run (handleGenerateClick r s) s =
             s\<lparr>error := Some (lit ''Please upload an image first.'')\<rparr>
         \<and> filter is_edit_call (handleGenerateClick r s) = []
         \<and> filter is_set_loading (handleGenerateClick r s) = []"
  using assms
  by (simp add: handleGenerateClick_def handleGenerateClick_sync_def awaiting_def)

theorem generate_without_image_witness:
  "originalImage initial_state = None
   \<and> handleGenerateClick (Resolved (lit ''abcd1234'')) initial_state =
       [SetError (Some (lit ''Please upload an image first.''))]
   \<and> error (run (handleGenerateClick (Resolved (lit ''abcd1234'')) initial_state) initial_state) =
       Some (lit ''Please upload an image first.'')"
proof -
  have a: "originalImage initial_state = None"
    by (simp add: initial_state_def)
  show ?thesis
    using a generate_without_image [OF a, of "Resolved (lit ''abcd1234'')"]
    by simp
qed

text \<open>
  C5. When Generate is invoked with an image present and a prompt whose trim is empty, the
  handler makes one call, the setter of \<open>error\<close> with "Please enter an editing prompt.":
  it does not call the collaborator, does not set \<open>isLoading\<close>, and \<open>isLoading\<close> is in
  every state of the run what it was before.
\<close>

theorem generate_blank_prompt:
  assumes "originalImage s = Some img" and "trim (prompt s) = []"
  shows "handleGenerateClick r s = [SetError (Some (lit ''Please enter an editing prompt.''))]
         \<and> run (handleGenerateClick r s) s =
             s\<lparr>error := Some (lit ''Please enter an editing prompt.'')\<rparr>
         \<and> filter is_edit_call (handleGenerateClick r s) = []
         \<and> filter is_set_loading (handleGenerateClick r s) = []
         \<and> map isLoading (states_of (handleGenerateClick r s) s) = [isLoading s, isLoading s]"
  using assms
  by (simp add: handleGenerateClick_def handleGenerateClick_sync_def awaiting_def)

theorem generate_blank_prompt_witness:
  "originalImage (with_photo (lit ''  '')) = Some photo_image
   \<and> trim (prompt (with_photo (lit ''  ''))) = []
   \<and> handleGenerateClick (Resolved (lit ''abcd1234'')) (with_photo (lit ''  '')) =
       [SetError (Some (lit ''Please enter an editing prompt.''))]
   \<and> map isLoading
        (states_of (handleGenerateClick (Resolved (lit ''abcd1234'')) (with_photo (lit ''  '')))
           (with_photo (lit ''  ''))) = [False, False]"
proof -
  have a: "originalImage (with_photo (lit ''  '')) = Some photo_image"
    by (simp add: with_photo_def)
  have b: "trim (prompt (with_photo (lit ''  ''))) = []"
    using trim_blank by (simp add: with_photo_def)
  show ?thesis
    using a b generate_blank_prompt [OF a b, of "Resolved (lit ''abcd1234'')"]
    by (simp add: with_photo_def initial_state_def)
qed

section \<open>The upload handler\<close>

text \<open>
  C6. For a file whose type does not start with \<open>image/\<close>, the upload handler makes one
  call, the setter of \<open>error\<close> with "Please select a valid image file.": the file is not
  read, and the state differs from the one before in \<open>error\<close> only, so \<open>originalImage\<close>
  is what it was.
\<close>

theorem upload_wrong_type:
  assumes "\<not> startsWith (type f) (lit ''image/'')"
  shows "handleImageUpload (Some f) r =
           [SetError (Some (lit ''Please select a valid image file.''))]
         \<and> filter is_read (handleImageUpload (Some f) r) = []
         \<and> run (handleImageUpload (Some f) r) s =
             s\<lparr>error := Some (lit ''Please select a valid image file.'')\<rparr>
         \<and> originalImage (run (handleImageUpload (Some f) r) s) = originalImage s"
  using assms by (simp add: handleImageUpload_def)

theorem upload_wrong_type_witness:
  "\<not> startsWith (type memo) (lit ''image/'')
   \<and> handleImageUpload (Some memo) (Loaded photo_url) =
       [SetError (Some (lit ''Please select a valid image file.''))]
   \<and> originalImage (run (handleImageUpload (Some memo) (Loaded photo_url)) initial_state) = None"
proof -
  have a: "\<not> startsWith (type memo) (lit ''image/'')"
    by (rule memo_is_no_image)
  show ?thesis
    using a upload_wrong_type [OF a, of "Loaded photo_url" initial_state]
    by (simp add: initial_state_def)
qed

text \<open>
  C7. For a file whose type starts with \<open>image/\<close> and whose read gives a data URL, a header
  without comma, a comma and a payload without comma, the upload handler replaces
  \<open>originalImage\<close> by the new file with that payload and clears \<open>editedImage\<close> and \<open>error\<close>;
  the prompt and \<open>isLoading\<close> are what they were.
\<close>

theorem upload_success:
  assumes "startsWith (type f) (lit ''image/'')"
    and "comma \<notin> set h" and "comma \<notin> set p"
  shows "run (handleImageUpload (Some f) (Loaded (h @ comma # p))) s =
           s\<lparr>originalImage := Some \<lparr>file_obj = f, base64 = Some p\<rparr>,
             editedImage := None, error := None\<rparr>
         \<and> prompt (run (handleImageUpload (Some f) (Loaded (h @ comma # p))) s) = prompt s"
  using assms by (simp add: handleImageUpload_def fileToBase64_data_url)

theorem upload_success_witness:
  "startsWith (type photo) (lit ''image/'')
   \<and> comma \<notin> set (lit ''data:image/png;base64'') \<and> comma \<notin> set (lit ''AAAA'')
   \<and> run (handleImageUpload (Some photo)
             (Loaded (lit ''data:image/png;base64'' @ comma # lit ''AAAA'')))
        (shown_result\<lparr>error := Some (lit ''quota exceeded'')\<rparr>) =
       with_photo (lit ''make it blue'')"
proof -
  have a: "startsWith (type photo) (lit ''image/'')"
    by (rule photo_is_image)
  have b: "comma \<notin> set (lit ''data:image/png;base64'')"
    by (simp add: lit_def comma_def)
  have c: "comma \<notin> set (lit ''AAAA'')"
    by (simp add: lit_def comma_def)
  show ?thesis
    using a b c
      upload_success [OF a b c, of "shown_result\<lparr>error := Some (lit ''quota exceeded'')\<rparr>"]
    by (simp add: shown_result_def with_photo_def photo_image_def initial_state_def)
qed

text \<open>
  C9. For a file whose type starts with \<open>image/\<close> and whose read fails, the upload handler
  reads the file once and then sets \<open>error\<close> to "Failed to read the image file.": the state
  differs from the one before in \<open>error\<close> only, so \<open>originalImage\<close> and \<open>editedImage\<close> are
  what they were.
\<close>

theorem upload_read_failure:
  assumes "startsWith (type f) (lit ''image/'')"
  shows "handleImageUpload (Some f) ReadFailed =
           [ReadAsDataURL f, SetError (Some (lit ''Failed to read the image file.''))]
         \<and> run (handleImageUpload (Some f) ReadFailed) s =
             s\<lparr>error := Some (lit ''Failed to read the image file.'')\<rparr>
         \<and> originalImage (run (handleImageUpload (Some f) ReadFailed) s) = originalImage s
         \<and> editedImage (run (handleImageUpload (Some f) ReadFailed) s) = editedImage s"
  using assms by (simp add: handleImageUpload_def fileToBase64_def)

theorem upload_read_failure_witness:
  "startsWith (type photo) (lit ''image/'')
   \<and> filter is_read (handleImageUpload (Some photo) ReadFailed) = [ReadAsDataURL photo]
   \<and> run (handleImageUpload (Some photo) ReadFailed) shown_result =
       shown_result\<lparr>error := Some (lit ''Failed to read the image file.'')\<rparr>"
proof -
  have a: "startsWith (type photo) (lit ''image/'')"
    by (rule photo_is_image)
  show ?thesis
    using a upload_read_failure [OF a, of shown_result]
    by simp
qed

text \<open>
  C10. For a change event without a file, the upload handler makes one call, the setter of
  \<open>error\<close> with "Please select a valid image file.", which is the run it makes for a file
  whose type does not start with \<open>image/\<close>; \<open>originalImage\<close>, \<open>editedImage\<close> and the
  prompt are what they were.
\<close>

theorem upload_no_file:
  "handleImageUpload None r = [SetError (Some (lit ''Please select a valid image file.''))]
   \<and> (\<not> startsWith (type f) (lit ''image/'') \<longrightarrow>
        handleImageUpload None r = handleImageUpload (Some f) r')
   \<and> run (handleImageUpload None r) s =
       s\<lparr>error := Some (lit ''Please select a valid image file.'')\<rparr>
   \<and> originalImage (run (handleImageUpload None r) s) = originalImage s
   \<and> editedImage (run (handleImageUpload None r) s) = editedImage s
   \<and> prompt (run (handleImageUpload None r) s) = prompt s"
  by (simp add: handleImageUpload_def)

theorem upload_no_file_witness:
  "\<not> startsWith (type memo) (lit ''image/'')
   \<and> handleImageUpload None ReadFailed = handleImageUpload (Some memo) (Loaded photo_url)
   \<and> run (handleImageUpload None ReadFailed) shown_result =
       shown_result\<lparr>error := Some (lit ''Please select a valid image file.'')\<rparr>"
proof -
  have a: "\<not> startsWith (type memo) (lit ''image/'')"
    by (rule memo_is_no_image)
  show ?thesis
    using a upload_no_file [of ReadFailed memo "Loaded photo_url" shown_result]
    by blast
qed

section \<open>Loading, error and result in the reachable states\<close>

lemma one_request_initial: "one_request initial_config"
  by (simp add: one_request_def initial_config_def initial_state_def)

lemma upload_keeps_loading: "isLoading (run (handleImageUpload fo r) s) = isLoading s"
  by (simp add: handleImageUpload_def split: option.splits sum.splits)

lemma upload_error_range:
  "error s \<in> upload_errors \<Longrightarrow> error (run (handleImageUpload fo r) s) \<in> upload_errors"
  by (simp add: handleImageUpload_def upload_errors_def split: option.splits sum.splits)

lemma upload_result_range:
  "editedImage s = None \<Longrightarrow> editedImage (run (handleImageUpload fo r) s) = None"
  by (simp add: handleImageUpload_def split: option.splits sum.splits)

lemma settle_not_loading: "\<not> isLoading (run (handleGenerateClick_settle img r) s)"
  by (simp add: handleGenerateClick_settle_def split: edit_result.splits)

lemma sync_awaiting:
  "awaiting s = Some img \<Longrightarrow>
     run (handleGenerateClick_sync s) s =
       s\<lparr>isLoading := True, error := None, editedImage := None\<rparr>"
  by (auto simp add: awaiting_def handleGenerateClick_sync_def split: option.splits if_splits)

lemma sync_guarded:
  "awaiting s = None \<Longrightarrow>
     isLoading (run (handleGenerateClick_sync s) s) = isLoading s \<and>
     editedImage (run (handleGenerateClick_sync s) s) = editedImage s"
  by (auto simp add: awaiting_def handleGenerateClick_sync_def split: option.splits if_splits)

lemma awaiting_passing:
  assumes "originalImage s = Some img" and "trim (prompt s) \<noteq> []"
  shows "awaiting s = Some img"
  using assms by (simp add: awaiting_def)

text \<open>Each event keeps the invariant, so every sequence of events does.\<close>

lemma one_request_step:
  assumes "one_request c"
  shows "one_request (step e c)"
proof (cases e)
  case (Upload fo r)
  with assms show ?thesis
    by (simp add: one_request_def upload_keeps_loading upload_error_range upload_result_range)
next
  case (ChangePrompt v)
  with assms show ?thesis
    by (auto simp add: one_request_def)
next
  case ClickGenerate
  show ?thesis
  proof (cases "awaiting (ui c)")
    case None
    with assms ClickGenerate show ?thesis
      by (auto simp add: one_request_def sync_guarded)
  next
    case (Some img)
    with assms ClickGenerate show ?thesis
      by (auto simp add: one_request_def sync_awaiting upload_errors_def)
  qed
next
  case (Settle i r)
  with assms show ?thesis
    by (auto simp add: one_request_def settle_not_loading)
qed



lemma exec_append: "exec (es @ fs) c = exec fs (exec es c)"
  by (induction es arbitrary: c) simp_all

text \<open>The first two events of the examples: a photo is uploaded, then Generate is clicked.\<close>

lemma run_upload_photo:
  "run (handleImageUpload (Some photo) (Loaded photo_url)) s =
     s\<lparr>originalImage := Some photo_image, editedImage := None, error := None\<rparr>"
proof -
  have "comma \<notin> set (lit ''data:image/png;base64'')" and "comma \<notin> set (lit ''AAAA'')"
    by (simp_all add: lit_def comma_def)
  then have "fileToBase64 (Loaded (lit ''data:image/png;base64'' @ comma # lit ''AAAA'')) =
      Inr (Some (lit ''AAAA''))"
    by (rule fileToBase64_data_url)
  moreover have "lit ''data:image/png;base64'' @ comma # lit ''AAAA'' = photo_url"
    by (simp add: photo_url_def lit_def comma_def)
  ultimately show ?thesis
    using photo_is_image by (simp add: handleImageUpload_def photo_image_def)
qed

lemma run_sync_passing:
  assumes "originalImage s \<noteq> None" and "trim (prompt s) \<noteq> []"
  shows "run (handleGenerateClick_sync s) s =
     s\<lparr>isLoading := True, error := None, editedImage := None\<rparr>"
  using assms by (auto simp add: handleGenerateClick_sync_def)

lemma exec_photo_loaded:
  "exec [Upload (Some photo) (Loaded photo_url)] initial_config = photo_loaded"
  by (simp add: run_upload_photo photo_loaded_def initial_config_def initial_state_def)

lemma exec_photo_requested:
  "exec [Upload (Some photo) (Loaded photo_url), ClickGenerate] initial_config = photo_requested"
proof -
  have "step ClickGenerate photo_loaded = photo_requested"
    by (simp add: run_sync_passing awaiting_passing trim_default_prompt photo_loaded_def
        photo_requested_def initial_state_def)
  then show ?thesis
    using exec_photo_loaded by simp
qed

section \<open>A request in flight\<close>





lemma exec_after_request:
  "exec (Upload (Some photo) (Loaded photo_url) # ClickGenerate # es) initial_config =
     exec es photo_requested"
  using exec_append [of "[Upload (Some photo) (Loaded photo_url), ClickGenerate]" es initial_config]
  by (simp only: exec_photo_requested append.simps)





section \<open>The result and the request started last\<close>

lemma result_of_success_initial: "result_of_success initial_config NoRequest"
  using one_request_initial
  by (simp add: result_of_success_def) (simp add: initial_config_def initial_state_def)

lemma settle_rejected_result:
  "editedImage (run (handleGenerateClick_settle img (Rejected M)) s) = editedImage s"
  by (simp add: handleGenerateClick_settle_def)

lemma upload_result_cases:
  "editedImage (run (handleImageUpload fo r) s) = None \<or>
     editedImage (run (handleImageUpload fo r) s) = editedImage s"
  by (simp add: handleImageUpload_def split: option.splits sum.splits)

lemma result_of_success_step:
  assumes "result_of_success c q"
  shows "result_of_success (step e c) (note_request e c q)"
proof -
  from assms have inv: "one_request c"
    and res: "editedImage (ui c) \<noteq> None \<longrightarrow> q = Succeeded"
    by (simp_all add: result_of_success_def)
  have inv': "one_request (step e c)"
    using inv by (rule one_request_step)
  have "editedImage (ui (step e c)) \<noteq> None \<longrightarrow> note_request e c q = Succeeded"
  proof (cases e)
    case (Upload fo r)
    have "editedImage (run (handleImageUpload fo r) (ui c)) = None \<or>
        editedImage (run (handleImageUpload fo r) (ui c)) = editedImage (ui c)"
      by (rule upload_result_cases)
    with res show ?thesis
      by (auto simp add: Upload)
  next
    case (ChangePrompt v)
    with res show ?thesis
      by simp
  next
    case ClickGenerate
    show ?thesis
    proof (cases "awaiting (ui c)")
      case None
      with res ClickGenerate show ?thesis
        by (simp add: sync_guarded)
    next
      case (Some img)
      with res ClickGenerate show ?thesis
        by (simp add: sync_awaiting)
    qed
  next
    case (Settle i r)
    show ?thesis
    proof (cases "i < length (inflight c)")
      case False
      with res Settle show ?thesis
        by simp
    next
      case True
      then have "inflight c \<noteq> []"
        by auto
      with inv have "editedImage (ui c) = None"
        by (simp add: one_request_def)
      with True Settle show ?thesis
        by (cases r) (simp_all add: settle_rejected_result)
    qed
  qed
  with inv' show ?thesis
    by (simp add: result_of_success_def)
qed

lemma result_of_success_exec:
  "result_of_success c q \<Longrightarrow> result_of_success (exec es c) (last_request es c q)"
  by (induction es arbitrary: c q) (simp_all add: result_of_success_step)

lemma result_of_success_reachable:
  "result_of_success (exec es initial_config) (last_request es initial_config NoRequest)"
  by (rule result_of_success_exec [OF result_of_success_initial])

text \<open>
  C8, as the code has it. In every state the component reaches from its first render:
  \<open>editedImage\<close> is set only when \<open>isLoading\<close> is false, no request is in flight and the
  request started last has succeeded; while \<open>isLoading\<close> is set, \<open>editedImage\<close> is unset and
  \<open>error\<close> is unset or one of the two messages of the upload handler; when a request in
  flight is rejected with \<open>M\<close>, \<open>editedImage\<close> is unset before and after, \<open>error\<close> becomes
  \<open>M\<close> and \<open>isLoading\<close> false. In every state, the run of Generate that passes both guards
  sets \<open>isLoading\<close> and clears \<open>error\<close> and \<open>editedImage\<close>.
\<close>

theorem loading_result_error_invariant:
  "(editedImage (ui (exec es initial_config)) \<noteq> None \<longrightarrow>
      \<not> isLoading (ui (exec es initial_config)) \<and>
      inflight (exec es initial_config) = [] \<and>
      last_request es initial_config NoRequest = Succeeded)
   \<and> (isLoading (ui (exec es initial_config)) \<longrightarrow>
      editedImage (ui (exec es initial_config)) = None \<and>
      error (ui (exec es initial_config)) \<in>
        {None, Some (lit ''Please select a valid image file.''),
         Some (lit ''Failed to read the image file.'')})
   \<and> (i < length (inflight (exec es initial_config)) \<longrightarrow>
        editedImage (ui (exec es initial_config)) = None \<and>
        ui (step (Settle i (Rejected M)) (exec es initial_config)) =
          (ui (exec es initial_config))\<lparr>editedImage := None, isLoading := False, error := Some M\<rparr>)
   \<and> (awaiting s = Some img \<longrightarrow>
        run (handleGenerateClick_sync s) s =
          s\<lparr>isLoading := True, error := None, editedImage := None\<rparr>)"
proof -
  let ?c = "exec es initial_config"
  have "result_of_success ?c (last_request es initial_config NoRequest)"
    by (rule result_of_success_reachable)
  then have inv: "one_request ?c"
    and res: "editedImage (ui ?c) \<noteq> None \<longrightarrow> last_request es initial_config NoRequest = Succeeded"
    by (simp_all add: result_of_success_def)
  have r: "editedImage (ui ?c) \<noteq> None \<longrightarrow>
      \<not> isLoading (ui ?c) \<and> inflight ?c = [] \<and>
      last_request es initial_config NoRequest = Succeeded"
  proof
    assume shown: "editedImage (ui ?c) \<noteq> None"
    with inv have idle: "\<not> isLoading (ui ?c)"
      by (auto simp add: one_request_def)
    with inv have "inflight ?c = []"
      by (auto simp add: one_request_def)
    with idle res shown show "\<not> isLoading (ui ?c) \<and> inflight ?c = [] \<and>
        last_request es initial_config NoRequest = Succeeded"
      by simp
  qed
  have a: "isLoading (ui ?c) \<longrightarrow>
      editedImage (ui ?c) = None \<and>
      error (ui ?c) \<in>
        {None, Some (lit ''Please select a valid image file.''),
         Some (lit ''Failed to read the image file.'')}"
    using inv by (simp add: one_request_def upload_errors_def)
  have b: "i < length (inflight ?c) \<longrightarrow>
        editedImage (ui ?c) = None \<and>
        ui (step (Settle i (Rejected M)) ?c) =
          (ui ?c)\<lparr>editedImage := None, isLoading := False, error := Some M\<rparr>"
  proof
    assume i: "i < length (inflight ?c)"
    then have "inflight ?c \<noteq> []"
      by auto
    with inv have none: "editedImage (ui ?c) = None"
      by (simp add: one_request_def)
    with i show "editedImage (ui ?c) = None \<and>
        ui (step (Settle i (Rejected M)) ?c) =
          (ui ?c)\<lparr>editedImage := None, isLoading := False, error := Some M\<rparr>"
      by (simp add: handleGenerateClick_settle_def)
  qed
  have c: "awaiting s = Some img \<longrightarrow>
        run (handleGenerateClick_sync s) s =
          s\<lparr>isLoading := True, error := None, editedImage := None\<rparr>"
    by (simp add: sync_awaiting)
  from r a b c show ?thesis
    by blast
qed

theorem loading_result_error_invariant_witness:
  "editedImage
     (ui (exec [Upload (Some photo) (Loaded photo_url), ClickGenerate,
                Settle 0 (Resolved (lit ''abcd1234''))] initial_config)) \<noteq> None
   \<and> last_request [Upload (Some photo) (Loaded photo_url), ClickGenerate,
                    Settle 0 (Resolved (lit ''abcd1234''))] initial_config NoRequest = Succeeded
   \<and> isLoading (ui (exec [Upload (Some photo) (Loaded photo_url), ClickGenerate] initial_config))
   \<and> editedImage
       (ui (exec [Upload (Some photo) (Loaded photo_url), ClickGenerate] initial_config)) = None
   \<and> 0 < length
       (inflight (exec [Upload (Some photo) (Loaded photo_url), ClickGenerate] initial_config))
   \<and> ui (step (Settle 0 (Rejected (lit ''quota exceeded'')))
            (exec [Upload (Some photo) (Loaded photo_url), ClickGenerate] initial_config)) =
       initial_state\<lparr>originalImage := Some photo_image, error := Some (lit ''quota exceeded'')\<rparr>
   \<and> awaiting shown_result = Some photo_image
   \<and> run (handleGenerateClick_sync shown_result) shown_result =
       (with_photo (lit ''make it blue''))\<lparr>isLoading := True\<rparr>"
proof -
  have r: "editedImage
     (ui (exec [Upload (Some photo) (Loaded photo_url), ClickGenerate,
                Settle 0 (Resolved (lit ''abcd1234''))] initial_config)) \<noteq> None"
    by (simp only: exec_after_request) (simp add: photo_requested_def handleGenerateClick_settle_def)
  have a: "isLoading
      (ui (exec [Upload (Some photo) (Loaded photo_url), ClickGenerate] initial_config))"
    by (simp only: exec_photo_requested) (simp add: photo_requested_def)
  have b: "0 < length
      (inflight (exec [Upload (Some photo) (Loaded photo_url), ClickGenerate] initial_config))"
    by (simp only: exec_photo_requested) (simp add: photo_requested_def)
  have c: "awaiting shown_result = Some photo_image"
    using trim_blue by (simp add: awaiting_def shown_result_def with_photo_def)
  have d: "last_request [Upload (Some photo) (Loaded photo_url), ClickGenerate,
                    Settle 0 (Resolved (lit ''abcd1234''))] initial_config NoRequest = Succeeded"
    using loading_result_error_invariant
      [of "[Upload (Some photo) (Loaded photo_url), ClickGenerate,
            Settle 0 (Resolved (lit ''abcd1234''))]" 0 "[]" initial_state photo_image,
        THEN conjunct1, THEN mp, OF r]
    by (rule conjunct2 [THEN conjunct2])
  have e: "editedImage
       (ui (exec [Upload (Some photo) (Loaded photo_url), ClickGenerate] initial_config)) = None
   \<and> ui (step (Settle 0 (Rejected (lit ''quota exceeded'')))
            (exec [Upload (Some photo) (Loaded photo_url), ClickGenerate] initial_config)) =
       initial_state\<lparr>originalImage := Some photo_image, error := Some (lit ''quota exceeded'')\<rparr>
   \<and> run (handleGenerateClick_sync shown_result) shown_result =
       (with_photo (lit ''make it blue''))\<lparr>isLoading := True\<rparr>"
    using a b c
      loading_result_error_invariant [of "[Upload (Some photo) (Loaded photo_url), ClickGenerate]"
        0 "lit ''quota exceeded''" shown_result photo_image, THEN conjunct2]
    by (simp only: exec_photo_requested)
      (simp add: photo_requested_def shown_result_def with_photo_def initial_state_def)
  from r d a b c e show ?thesis
    by blast
qed

text \<open>
  C8, as the claim has it, fails in two reachable states. After a photo is uploaded,
  Generate is clicked and a text file is chosen while the request is in flight,
  \<open>isLoading\<close> and \<open>error\<close> are both set. After a photo is uploaded, Generate is clicked,
  the request resolves, the prompt is emptied and Generate is clicked again, \<open>error\<close> has
  been set and \<open>editedImage\<close> still holds the result.
\<close>

theorem loading_error_exclusive_counterexample:
  "isLoading (ui (exec [Upload (Some photo) (Loaded photo_url), ClickGenerate,
                        Upload (Some memo) ReadFailed] initial_config))
   \<and> error (ui (exec [Upload (Some photo) (Loaded photo_url), ClickGenerate,
                       Upload (Some memo) ReadFailed] initial_config)) =
       Some (lit ''Please select a valid image file.'')
   \<and> editedImage (ui (exec [Upload (Some photo) (Loaded photo_url), ClickGenerate,
                             Settle 0 (Resolved (lit ''abcd1234'')),
                             ChangePrompt [], ClickGenerate] initial_config)) =
       Some (lit ''data:image/png;base64,abcd1234'')
   \<and> error (ui (exec [Upload (Some photo) (Loaded photo_url), ClickGenerate,
                       Settle 0 (Resolved (lit ''abcd1234'')),
                       ChangePrompt [], ClickGenerate] initial_config)) =
       Some (lit ''Please enter an editing prompt.'')"
proof -
  have a: "exec [Upload (Some photo) (Loaded photo_url), ClickGenerate,
                 Upload (Some memo) ReadFailed] initial_config =
           exec [Upload (Some memo) ReadFailed] photo_requested"
    using exec_append [of "[Upload (Some photo) (Loaded photo_url), ClickGenerate]"
        "[Upload (Some memo) ReadFailed]" initial_config]
    by (simp only: exec_photo_requested append.simps)
  have b: "exec [Upload (Some photo) (Loaded photo_url), ClickGenerate,
                 Settle 0 (Resolved (lit ''abcd1234'')), ChangePrompt [], ClickGenerate]
             initial_config =
           exec [Settle 0 (Resolved (lit ''abcd1234'')), ChangePrompt [], ClickGenerate]
             photo_requested"
    using exec_append [of "[Upload (Some photo) (Loaded photo_url), ClickGenerate]"
        "[Settle 0 (Resolved (lit ''abcd1234'')), ChangePrompt [], ClickGenerate]"
        initial_config]
    by (simp only: exec_photo_requested append.simps)
  have c: "isLoading (ui (exec [Upload (Some memo) ReadFailed] photo_requested))
      \<and> error (ui (exec [Upload (Some memo) ReadFailed] photo_requested)) =
          Some (lit ''Please select a valid image file.'')"
    using memo_is_no_image
    by (simp add: photo_requested_def handleImageUpload_def)
  have d: "editedImage (ui (exec [Settle 0 (Resolved (lit ''abcd1234'')), ChangePrompt [],
                                  ClickGenerate] photo_requested)) =
          Some (lit ''data:image/png;base64,abcd1234'')
      \<and> error (ui (exec [Settle 0 (Resolved (lit ''abcd1234'')), ChangePrompt [],
                          ClickGenerate] photo_requested)) =
          Some (lit ''Please enter an editing prompt.'')"
    by (simp add: photo_requested_def handleGenerateClick_settle_def handleGenerateClick_sync_def
        awaiting_def trim_def photo_image_def photo_def lit_def)
  from c d show ?thesis
    unfolding a b by blast
qed

end
